theory Spec2Isabelle
  imports Main "HOL-Library.AList" "HOL-Library.Sublist"
begin

section \<open>Common data: errors, timestamps, Go integers\<close>

text \<open>
  The Go code reports failures as \<^verbatim>\<open>error\<close> values built with \<^verbatim>\<open>fmt.Errorf\<close>.
  \<open>Msg s\<close> is an error whose whole text is \<open>s\<close>; \<open>Wrap m e\<close> is
  \<^verbatim>\<open>fmt.Errorf(m + ": %v", e)\<close>; \<open>Sys e\<close> is an error of the operating system and
  \<open>Json_error\<close> an error of \<^verbatim>\<open>encoding/json\<close>.
\<close>

datatype os_error = ENOENT | ENOTDIR | EISDIR | EINVAL

datatype error = Sys os_error | Json_error | Msg string | Wrap string error

text \<open>A \<^verbatim>\<open>time.Time\<close> is an instant, counted in some fixed unit.\<close>

type_synonym gotime = nat

text \<open>
  Go's \<^verbatim>\<open>int\<close> is a 64-bit two's complement integer on the platforms the service
  is built for; \<open>go_int\<close> wraps a mathematical integer into that range.
\<close>

definition go_int :: "int \<Rightarrow> int" where
  "go_int x = (x + 2 ^ 63) mod 2 ^ 64 - 2 ^ 63"

section \<open>The server registry (backend/src/core/server\_manager.go)\<close>

record Server =
  ID :: string
  Name :: string
  Country :: string
  City :: string
  IP :: string
  Load :: int
  Capacity :: int
  Status :: string
  LastUpdated :: gotime

text \<open>
  \<^verbatim>\<open>ServerManager.servers\<close> is a Go map from server id to a server. A \<^verbatim>\<open>range\<close>
  over a Go map visits the keys in an order the runtime chooses anew each time, so every
  function that ranges over the registry takes that order as its first argument:
  \<open>range_servers order servers\<close> lists the servers in the order of the visit.
\<close>

type_synonym registry = "string \<rightharpoonup> Server"

definition range_servers :: "string list \<Rightarrow> registry \<Rightarrow> Server list" where
  "range_servers order servers = List.map_filter servers order"

definition is_range_order :: "string list \<Rightarrow> registry \<Rightarrow> bool" where
  "is_range_order order servers = (distinct order \<and> set order = dom servers)"

definition initializeServers :: "gotime \<Rightarrow> registry" where
  "initializeServers now = Map.empty
     (''us-east-1'' \<mapsto> \<lparr>ID = ''us-east-1'', Name = ''US East (N. Virginia)'',
        Country = ''United States'', City = ''Virginia'', IP = ''192.168.1.1'',
        Load = 0, Capacity = 100, Status = ''online'', LastUpdated = now\<rparr>,
      ''us-west-1'' \<mapsto> \<lparr>ID = ''us-west-1'', Name = ''US West (N. California)'',
        Country = ''United States'', City = ''California'', IP = ''192.168.1.2'',
        Load = 0, Capacity = 100, Status = ''online'', LastUpdated = now\<rparr>,
      ''eu-west-1'' \<mapsto> \<lparr>ID = ''eu-west-1'', Name = ''EU (Ireland)'',
        Country = ''Ireland'', City = ''Dublin'', IP = ''192.168.1.3'',
        Load = 0, Capacity = 100, Status = ''online'', LastUpdated = now\<rparr>,
      ''ap-northeast-1'' \<mapsto> \<lparr>ID = ''ap-northeast-1'', Name = ''Asia Pacific (Tokyo)'',
        Country = ''Japan'', City = ''Tokyo'', IP = ''192.168.1.4'',
        Load = 0, Capacity = 100, Status = ''maintenance'', LastUpdated = now\<rparr>)"

definition GetServer :: "registry \<Rightarrow> string \<Rightarrow> error + Server" where
  "GetServer servers sid =
     (case servers sid of
        None \<Rightarrow> Inl (Msg (''server not found: '' @ sid))
      | Some server \<Rightarrow> Inr server)"

definition GetServersByCountry :: "string list \<Rightarrow> registry \<Rightarrow> string \<Rightarrow> Server list" where
  "GetServersByCountry order servers country =
     filter (\<lambda>server. Country server = country) (range_servers order servers)"

text \<open>
  \<^verbatim>\<open>UpdateServerLoad(id, load)\<close> stores \<open>load\<close> as the server's load: an absolute
  value, not a difference. \<open>now\<close> is the reading of \<^verbatim>\<open>time.Now()\<close>.
\<close>

definition UpdateServerLoad :: "gotime \<Rightarrow> registry \<Rightarrow> string \<Rightarrow> int \<Rightarrow> error option \<times> registry" where
  "UpdateServerLoad now servers sid load =
     (case servers sid of
        None \<Rightarrow> (Some (Msg (''server not found: '' @ sid)), servers)
      | Some server \<Rightarrow>
          (None, servers(sid \<mapsto> server\<lparr>Load := load, LastUpdated := now\<rparr>)))"

text \<open>
  The selection loop of \<^verbatim>\<open>GetOptimalServer\<close>: the state is the pair of
  \<^verbatim>\<open>optimalServer\<close> (\<open>None\<close> for \<^verbatim>\<open>nil\<close>) and \<^verbatim>\<open>lowestLoad\<close>, which starts at the
  sentinel \<open>-1\<close>.
\<close>

fun lowest_load_loop :: "Server list \<Rightarrow> Server option \<times> int \<Rightarrow> Server option \<times> int" where
  "lowest_load_loop [] st = st"
| "lowest_load_loop (server # rest) (optimalServer, lowestLoad) =
     (if Load server \<ge> Capacity server then lowest_load_loop rest (optimalServer, lowestLoad)
      else if lowestLoad = - 1 \<or> Load server < lowestLoad
        then lowest_load_loop rest (Some server, Load server)
        else lowest_load_loop rest (optimalServer, lowestLoad))"

definition online_servers :: "string list \<Rightarrow> registry \<Rightarrow> Server list" where
  "online_servers order servers =
     filter (\<lambda>server. Status server = ''online'') (range_servers order servers)"

text \<open>
  With a country, the candidates are every server of that country, whatever its status;
  the online filter is applied only when no country is given, or when the country has no
  server at all. At most one of the two ranges of the country branch yields the
  candidates (the first only when it is non-empty, the second only when the first is
  empty), so one order stands for both.
\<close>

definition GetOptimalServer :: "string list \<Rightarrow> registry \<Rightarrow> string \<Rightarrow> error + Server" where
  "GetOptimalServer order servers country =
     (let candidates =
        (if country \<noteq> [] then
           (let byCountry = GetServersByCountry order servers country
            in if length byCountry = 0 then online_servers order servers else byCountry)
         else online_servers order servers)
      in if length candidates = 0 then Inl (Msg ''no available servers'')
         else (case fst (lowest_load_loop candidates (None, - 1)) of
                 None \<Rightarrow> Inl (Msg ''all servers are at capacity'')
               | Some optimalServer \<Rightarrow> Inr optimalServer))"

section \<open>The file system under the peer directories\<close>

text \<open>
  Peer metadata lives in files. A path is the list of its components below the root
  directory; \<^verbatim>\<open>filepath.Join\<close> joins its arguments with slashes and cleans the result,
  which for the absolute directories the service is configured with (\<^verbatim>\<open>/etc/wireguard\<close>,
  \<^verbatim>\<open>/config\<close>) amounts to splitting every argument at its slashes, dropping empty
  components and \<^verbatim>\<open>.\<close>, and letting \<^verbatim>\<open>..\<close> remove the component before it.
  \<open>Join base elems\<close> is \<^verbatim>\<open>filepath.Join(base, elems...)\<close> for an already cleaned
  \<open>base\<close>.
\<close>

type_synonym path = "string list"

fun split_slash :: "string \<Rightarrow> string list" where
  "split_slash [] = [[]]"
| "split_slash (c # cs) =
     (if c = CHR ''/'' then [] # split_slash cs
      else (case split_slash cs of [] \<Rightarrow> [[c]] | x # xs \<Rightarrow> (c # x) # xs))"

definition clean_step :: "path \<Rightarrow> string \<Rightarrow> path" where
  "clean_step p c =
     (if c = [] \<or> c = ''.'' then p else if c = ''..'' then butlast p else p @ [c])"

definition Join :: "path \<Rightarrow> string list \<Rightarrow> path" where
  "Join base elems = foldl clean_step base (concat (map split_slash elems))"

definition path_text :: "path \<Rightarrow> string" where
  "path_text p = (if p = [] then ''/'' else concat (map (\<lambda>c. CHR ''/'' # c) p))"

text \<open>
  A file holds either a JSON object or bytes that do not parse as one. The values of
  the objects the service writes are strings, booleans and timestamps.
\<close>

datatype jvalue = JString string | JBool bool | JTime gotime | JNumber int

type_synonym json = "(string \<times> jvalue) list"

datatype filedata = Json json | NotJson

datatype node = File filedata | Dir "(string \<times> node) list"

text \<open>
  \<open>lookup\<close> walks from a node down a path, as \<^verbatim>\<open>os.Stat\<close> does: a missing
  component is \<open>ENOENT\<close>, a regular file in the place of a directory is \<open>ENOTDIR\<close>.
  Permissions and I/O failures of the device are outside the model.
\<close>

fun lookup :: "node \<Rightarrow> path \<Rightarrow> os_error + node" where
  "lookup n [] = Inr n"
| "lookup n (c # cs) =
     (case n of
        File d \<Rightarrow> Inl ENOTDIR
      | Dir es \<Rightarrow> (case map_of es c of None \<Rightarrow> Inl ENOENT | Some m \<Rightarrow> lookup m cs))"

definition IsNotExist :: "os_error + 'a \<Rightarrow> bool" where
  "IsNotExist r = (case r of Inl e \<Rightarrow> e = ENOENT | Inr v \<Rightarrow> False)"

fun MkdirAll :: "node \<Rightarrow> path \<Rightarrow> os_error + node" where
  "MkdirAll n [] = (case n of File d \<Rightarrow> Inl ENOTDIR | Dir es \<Rightarrow> Inr n)"
| "MkdirAll n (c # cs) =
     (case n of
        File d \<Rightarrow> Inl ENOTDIR
      | Dir es \<Rightarrow>
          (case MkdirAll (case map_of es c of None \<Rightarrow> Dir [] | Some m \<Rightarrow> m) cs of
             Inl e \<Rightarrow> Inl e
           | Inr m' \<Rightarrow> Inr (Dir (AList.update c m' es))))"

fun WriteFile :: "node \<Rightarrow> path \<Rightarrow> filedata \<Rightarrow> os_error + node" where
  "WriteFile n [] d = Inl EISDIR"
| "WriteFile n [c] d =
     (case n of
        File d' \<Rightarrow> Inl ENOTDIR
      | Dir es \<Rightarrow>
          (case map_of es c of
             Some (Dir es') \<Rightarrow> Inl EISDIR
           | _ \<Rightarrow> Inr (Dir (AList.update c (File d) es))))"
| "WriteFile n (c # cs) d =
     (case n of
        File d' \<Rightarrow> Inl ENOTDIR
      | Dir es \<Rightarrow>
          (case map_of es c of
             None \<Rightarrow> Inl ENOENT
           | Some m \<Rightarrow>
               (case WriteFile m cs d of
                  Inl e \<Rightarrow> Inl e
                | Inr m' \<Rightarrow> Inr (Dir (AList.update c m' es)))))"

definition ReadFile :: "node \<Rightarrow> path \<Rightarrow> os_error + filedata" where
  "ReadFile n p =
     (case lookup n p of
        Inl e \<Rightarrow> Inl e
      | Inr (Dir es) \<Rightarrow> Inl EISDIR
      | Inr (File d) \<Rightarrow> Inr d)"

text \<open>
  \<^verbatim>\<open>os.RemoveAll\<close> removes the path and everything below it; a path that does not
  exist is no error, a regular file in the place of one of its directories is. Removing
  the root itself is refused.
\<close>

fun RemoveAll :: "node \<Rightarrow> path \<Rightarrow> os_error option \<times> node" where
  "RemoveAll n [] = (Some EINVAL, n)"
| "RemoveAll n [c] =
     (case n of
        File d \<Rightarrow> (Some ENOTDIR, n)
      | Dir es \<Rightarrow> (None, Dir (AList.delete c es)))"
| "RemoveAll n (c # cs) =
     (case n of
        File d \<Rightarrow> (Some ENOTDIR, n)
      | Dir es \<Rightarrow>
          (case map_of es c of
             None \<Rightarrow> (None, n)
           | Some m \<Rightarrow>
               (case RemoveAll m cs of (e, m') \<Rightarrow> (e, Dir (AList.update c m' es)))))"

text \<open>
  \<^verbatim>\<open>os.ReadDir\<close> lists the entries of a directory, each with its name and whether it
  is a directory. (Go sorts the listing by name; no property below depends on the order,
  and the model lists the entries in the order the directory holds them.)
\<close>

definition is_dir :: "node \<Rightarrow> bool" where
  "is_dir n = (case n of File d \<Rightarrow> False | Dir es \<Rightarrow> True)"

definition ReadDir :: "node \<Rightarrow> path \<Rightarrow> os_error + (string \<times> bool) list" where
  "ReadDir n p =
     (case lookup n p of
        Inl e \<Rightarrow> Inl e
      | Inr (File d) \<Rightarrow> Inl ENOTDIR
      | Inr (Dir es) \<Rightarrow> Inr (map (\<lambda>(name, m). (name, is_dir m)) (AList.clearjunk es)))"

section \<open>Peers and their stored form (package wireguard)\<close>

record PeerConfig =
  pc_ID :: string
  pc_UserID :: string
  pc_ServerID :: string
  pc_DeviceType :: string
  pc_DeviceName :: string
  pc_PublicKey :: string
  pc_PrivateKey :: string
  pc_IP :: string
  pc_ServerIP :: string
  pc_CreatedAt :: gotime
  pc_UpdatedAt :: gotime
  pc_Dynamic :: bool

text \<open>
  \<^verbatim>\<open>PeerInfo\<close> is the view of a peer that the status request returns. Its two time
  fields are strings in the source, the RFC 3339 text of an instant; the model keeps the
  instant.
\<close>

record PeerInfo =
  pi_ID :: string
  pi_ServerID :: string
  pi_ServerName :: string
  pi_DeviceType :: string
  pi_DeviceName :: string
  pi_IP :: string
  pi_CreatedAt :: gotime
  pi_LastSeen :: gotime
  pi_BytesRx :: int
  pi_BytesTx :: int

text \<open>The fields of \<^verbatim>\<open>config.WireGuardConfig\<close> that the peer manager reads.\<close>

record WireGuardConfig =
  ConfigDir :: string
  DynamicPeerDir :: string
  ListenPort :: int
  PublicKey :: string
  DNS :: string
  ServerIP :: string
  ServerEndpoint :: string
  AllowedIPs :: string

text \<open>
  \<^verbatim>\<open>encoding/json\<close> makes every string well-formed UTF-8, when it writes one and when
  it reads one: each byte that starts no well-formed sequence becomes the replacement
  character U+FFFD (the bytes EF BF BD), and well-formed sequences are kept.
  \<open>rune_length s\<close> is the length of the well-formed sequence that \<open>s\<close> starts with
  (\<^verbatim>\<open>utf8.DecodeRuneInString\<close>), or \<open>0\<close>.
\<close>

definition byte_between :: "int \<Rightarrow> int \<Rightarrow> char \<Rightarrow> bool" where
  "byte_between lo hi c = (lo \<le> of_char c \<and> (of_char c :: int) \<le> hi)"

definition second_of_three :: "int \<Rightarrow> char \<Rightarrow> bool" where
  "second_of_three x b =
     (if x = 224 then byte_between 160 191 b
      else if x = 237 then byte_between 128 159 b
      else byte_between 128 191 b)"

definition second_of_four :: "int \<Rightarrow> char \<Rightarrow> bool" where
  "second_of_four x b =
     (if x = 240 then byte_between 144 191 b
      else if x = 244 then byte_between 128 143 b
      else byte_between 128 191 b)"

fun rune_length :: "string \<Rightarrow> nat" where
  "rune_length [] = 0"
| "rune_length (a # rest) =
     (let x = (of_char a :: int) in
      if x < 128 then 1
      else if 194 \<le> x \<and> x \<le> 223 then
        (case rest of
           b # rest' \<Rightarrow> if byte_between 128 191 b then 2 else 0
         | [] \<Rightarrow> 0)
      else if 224 \<le> x \<and> x \<le> 239 then
        (case rest of
           b # c # rest' \<Rightarrow>
             if second_of_three x b \<and> byte_between 128 191 c then 3 else 0
         | _ \<Rightarrow> 0)
      else if 240 \<le> x \<and> x \<le> 244 then
        (case rest of
           b # c # d # rest' \<Rightarrow>
             if second_of_four x b \<and> byte_between 128 191 c \<and> byte_between 128 191 d
             then 4 else 0
         | _ \<Rightarrow> 0)
      else 0)"

function CoerceUTF8 :: "string \<Rightarrow> string" where
  "CoerceUTF8 s =
     (if s = [] then []
      else if rune_length s = 0 then [CHR 0xEF, CHR 0xBF, CHR 0xBD] @ CoerceUTF8 (tl s)
      else take (rune_length s) s @ CoerceUTF8 (drop (rune_length s) s))"
  by pat_completeness auto
termination
  by (relation "measure length") auto

declare CoerceUTF8.simps [simp del]

text \<open>
  \<^verbatim>\<open>encoding/json\<close> writes a struct as an object with one member per field, named by
  the field's \<^verbatim>\<open>json\<close> tag, in the order of the fields.
\<close>

definition marshal_PeerConfig :: "PeerConfig \<Rightarrow> json" where
  "marshal_PeerConfig p =
     [(''id'', JString (CoerceUTF8 (pc_ID p))),
      (''userId'', JString (CoerceUTF8 (pc_UserID p))),
      (''serverId'', JString (CoerceUTF8 (pc_ServerID p))),
      (''deviceType'', JString (CoerceUTF8 (pc_DeviceType p))),
      (''deviceName'', JString (CoerceUTF8 (pc_DeviceName p))),
      (''publicKey'', JString (CoerceUTF8 (pc_PublicKey p))),
      (''privateKey'', JString (CoerceUTF8 (pc_PrivateKey p))),
      (''ip'', JString (CoerceUTF8 (pc_IP p))),
      (''serverIp'', JString (CoerceUTF8 (pc_ServerIP p))),
      (''createdAt'', JTime (pc_CreatedAt p)),
      (''updatedAt'', JTime (pc_UpdatedAt p)),
      (''dynamic'', JBool (pc_Dynamic p))]"

text \<open>
  Reading an object into a struct: a member that is absent leaves the field at its zero
  value, a member of the wrong kind is an error, and a string is made well-formed UTF-8.
  (Members are found by their exact name; the objects in the store are those
  \<open>marshal_PeerConfig\<close> wrote.)
\<close>

definition string_member :: "json \<Rightarrow> string \<Rightarrow> string option" where
  "string_member j k =
     (case map_of j k of
        None \<Rightarrow> Some []
      | Some (JString s) \<Rightarrow> Some (CoerceUTF8 s)
      | Some v \<Rightarrow> None)"

definition time_member :: "json \<Rightarrow> string \<Rightarrow> gotime option" where
  "time_member j k =
     (case map_of j k of None \<Rightarrow> Some 0 | Some (JTime t) \<Rightarrow> Some t | Some v \<Rightarrow> None)"

definition bool_member :: "json \<Rightarrow> string \<Rightarrow> bool option" where
  "bool_member j k =
     (case map_of j k of None \<Rightarrow> Some False | Some (JBool b) \<Rightarrow> Some b | Some v \<Rightarrow> None)"

definition unmarshal_PeerConfig :: "filedata \<Rightarrow> error + PeerConfig" where
  "unmarshal_PeerConfig d =
     (case d of
        NotJson \<Rightarrow> Inl Json_error
      | Json j \<Rightarrow>
         (case
            Option.bind (string_member j ''id'') (\<lambda>a.
            Option.bind (string_member j ''userId'') (\<lambda>b.
            Option.bind (string_member j ''serverId'') (\<lambda>c.
            Option.bind (string_member j ''deviceType'') (\<lambda>d.
            Option.bind (string_member j ''deviceName'') (\<lambda>e.
            Option.bind (string_member j ''publicKey'') (\<lambda>f.
            Option.bind (string_member j ''privateKey'') (\<lambda>g.
            Option.bind (string_member j ''ip'') (\<lambda>h.
            Option.bind (string_member j ''serverIp'') (\<lambda>i.
            Option.bind (time_member j ''createdAt'') (\<lambda>k.
            Option.bind (time_member j ''updatedAt'') (\<lambda>l.
            Option.bind (bool_member j ''dynamic'') (\<lambda>m.
              Some \<lparr>pc_ID = a, pc_UserID = b, pc_ServerID = c, pc_DeviceType = d,
                    pc_DeviceName = e, pc_PublicKey = f, pc_PrivateKey = g, pc_IP = h,
                    pc_ServerIP = i, pc_CreatedAt = k, pc_UpdatedAt = l,
                    pc_Dynamic = m\<rparr>))))))))))))
          of None \<Rightarrow> Inl Json_error | Some peer \<Rightarrow> Inr peer))"

text \<open>
  \<^verbatim>\<open>utils.WriteJSONToFile\<close> and \<^verbatim>\<open>utils.ReadJSONFromFile\<close>. Marshalling a
  \<^verbatim>\<open>PeerConfig\<close> cannot fail, so the writer takes the object; the reader takes the
  function that fills the caller's struct.
\<close>

definition WriteJSONToFile :: "node \<Rightarrow> path \<Rightarrow> json \<Rightarrow> error option \<times> node" where
  "WriteJSONToFile disk p j =
     (case WriteFile disk p (Json j) of
        Inl e \<Rightarrow> (Some (Wrap ''failed to write file'' (Sys e)), disk)
      | Inr disk' \<Rightarrow> (None, disk'))"

definition ReadJSONFromFile :: "node \<Rightarrow> path \<Rightarrow> (filedata \<Rightarrow> error + 'a) \<Rightarrow> error + 'a" where
  "ReadJSONFromFile disk p unmarshal =
     (case ReadFile disk p of
        Inl e \<Rightarrow> Inl (Wrap ''failed to read file'' (Sys e))
      | Inr d \<Rightarrow>
          (case unmarshal d of
             Inl e \<Rightarrow> Inl (Wrap ''failed to unmarshal JSON'' e)
           | Inr v \<Rightarrow> Inr v))"

section \<open>The peer manager (package wireguard)\<close>

text \<open>
  What a call reads from outside the program: the UUID that \<^verbatim>\<open>utils.GenerateUUID\<close>
  returns, the readings of \<^verbatim>\<open>time.Now()\<close> (two when a peer is built, one when a load
  is stored, one for the status view), and the order in which the runtime visits the map
  of placeholder replacements.
\<close>

record readings =
  new_uuid :: string
  now_created :: gotime
  now_updated :: gotime
  now_load :: gotime
  now_seen :: gotime
  replace_order :: "string list"

text \<open>\<^verbatim>\<open>NewPeerManager\<close> creates the two directories; a failure is logged and ignored.\<close>

definition NewPeerManager :: "WireGuardConfig \<Rightarrow> node \<Rightarrow> node" where
  "NewPeerManager cfg disk =
     (let disk1 = (case MkdirAll disk (Join [] [ConfigDir cfg]) of
                     Inl e \<Rightarrow> disk | Inr d \<Rightarrow> d)
      in (case MkdirAll disk1 (Join [] [DynamicPeerDir cfg]) of
            Inl e \<Rightarrow> disk1 | Inr d \<Rightarrow> d))"

definition generateKeyPair :: "error + (string \<times> string)" where
  "generateKeyPair =
     Inr (''YAnV4SnPYEA+jS6nQtxF5lS3jj0gqXBVVeP9tz/bP2A='',
          ''zzz3UBcqiV9RsYCzJWOU5VVVNk3VtQECQXXPnQiEfQQ='')"

definition allocateIP :: "error + string" where
  "allocateIP = Inr ''10.0.0.2/32''"

text \<open>
  \<^verbatim>\<open>applyConfiguration\<close> logs a line and returns \<^verbatim>\<open>nil\<close>: in the source as it
  stands, applying the configuration cannot fail.
\<close>

definition applyConfiguration :: "node \<Rightarrow> error option" where
  "applyConfiguration disk = None"

definition savePeerConfig :: "WireGuardConfig \<Rightarrow> node \<Rightarrow> PeerConfig \<Rightarrow> error option \<times> node" where
  "savePeerConfig cfg disk peer =
     (let userDir = Join [] [ConfigDir cfg, pc_UserID peer] in
      case MkdirAll disk userDir of
        Inl e \<Rightarrow> (Some (Wrap ''failed to create user directory'' (Sys e)), disk)
      | Inr disk1 \<Rightarrow>
         (let peerDir = Join userDir [pc_ID peer] in
          case MkdirAll disk1 peerDir of
            Inl e \<Rightarrow> (Some (Wrap ''failed to create peer directory'' (Sys e)), disk1)
          | Inr disk2 \<Rightarrow>
             (let metadataPath = Join peerDir [''metadata.json''] in
              case WriteJSONToFile disk2 metadataPath (marshal_PeerConfig peer) of
                (Some e, disk3) \<Rightarrow> (Some (Wrap ''failed to save peer metadata'' e), disk3)
              | (None, disk3) \<Rightarrow> (None, disk3))))"

definition saveDynamicPeerConfig :: "WireGuardConfig \<Rightarrow> node \<Rightarrow> PeerConfig \<Rightarrow> error option \<times> node" where
  "saveDynamicPeerConfig cfg disk peer =
     (let userDir = Join [] [DynamicPeerDir cfg, pc_UserID peer] in
      case MkdirAll disk userDir of
        Inl e \<Rightarrow> (Some (Wrap ''failed to create user directory'' (Sys e)), disk)
      | Inr disk1 \<Rightarrow>
         (let peerDir = Join userDir [pc_ID peer] in
          case MkdirAll disk1 peerDir of
            Inl e \<Rightarrow> (Some (Wrap ''failed to create peer directory'' (Sys e)), disk1)
          | Inr disk2 \<Rightarrow>
             (let metadataPath = Join peerDir [''metadata.json''] in
              case WriteJSONToFile disk2 metadataPath (marshal_PeerConfig peer) of
                (Some e, disk3) \<Rightarrow> (Some (Wrap ''failed to save peer metadata'' e), disk3)
              | (None, disk3) \<Rightarrow> (None, disk3))))"

definition getPeerConfig :: "WireGuardConfig \<Rightarrow> node \<Rightarrow> string \<Rightarrow> string \<Rightarrow> error + PeerConfig" where
  "getPeerConfig cfg disk userID peerID =
     (let metadataPath = Join [] [ConfigDir cfg, userID, peerID, ''metadata.json''] in
      if IsNotExist (lookup disk metadataPath)
      then Inl (Msg (''peer not found: '' @ peerID))
      else (case ReadJSONFromFile disk metadataPath unmarshal_PeerConfig of
              Inl e \<Rightarrow> Inl (Wrap ''failed to read peer metadata'' e)
            | Inr peer \<Rightarrow> Inr peer))"

definition getDynamicPeerConfig :: "WireGuardConfig \<Rightarrow> node \<Rightarrow> string \<Rightarrow> string \<Rightarrow> error + PeerConfig" where
  "getDynamicPeerConfig cfg disk userID peerID =
     (let metadataPath = Join [] [DynamicPeerDir cfg, userID, peerID, ''metadata.json''] in
      if IsNotExist (lookup disk metadataPath)
      then Inl (Msg (''dynamic peer not found: '' @ peerID))
      else (case ReadJSONFromFile disk metadataPath unmarshal_PeerConfig of
              Inl e \<Rightarrow> Inl (Wrap ''failed to read dynamic peer metadata'' e)
            | Inr peer \<Rightarrow> Inr peer))"

definition deletePeerConfig :: "WireGuardConfig \<Rightarrow> node \<Rightarrow> PeerConfig \<Rightarrow> error option \<times> node" where
  "deletePeerConfig cfg disk peer =
     (let peerDir = Join [] [ConfigDir cfg, pc_UserID peer, pc_ID peer] in
      if IsNotExist (lookup disk peerDir)
      then (Some (Msg (''peer directory not found: '' @ path_text peerDir)), disk)
      else (case RemoveAll disk peerDir of
              (Some e, disk') \<Rightarrow> (Some (Wrap ''failed to delete peer directory'' (Sys e)), disk')
            | (None, disk') \<Rightarrow> (None, disk')))"

definition deleteDynamicPeerConfig :: "WireGuardConfig \<Rightarrow> node \<Rightarrow> PeerConfig \<Rightarrow> error option \<times> node" where
  "deleteDynamicPeerConfig cfg disk peer =
     (let peerDir = Join [] [DynamicPeerDir cfg, pc_UserID peer, pc_ID peer] in
      if IsNotExist (lookup disk peerDir)
      then (Some (Msg (''dynamic peer directory not found: '' @ path_text peerDir)), disk)
      else (case RemoveAll disk peerDir of
              (Some e, disk') \<Rightarrow>
                (Some (Wrap ''failed to delete dynamic peer directory'' (Sys e)), disk')
            | (None, disk') \<Rightarrow> (None, disk')))"

text \<open>
  The struct literal that \<^verbatim>\<open>CreatePeer\<close> (\<open>dynamic = False\<close>) and
  \<^verbatim>\<open>CreateDynamicPeer\<close> (\<open>dynamic = True\<close>) build.
\<close>

definition new_peer ::
  "WireGuardConfig \<Rightarrow> readings \<Rightarrow> string \<Rightarrow> string \<Rightarrow> string \<Rightarrow> string
     \<Rightarrow> string \<Rightarrow> string \<Rightarrow> string \<Rightarrow> bool \<Rightarrow> PeerConfig" where
  "new_peer cfg rd userID serverID deviceType deviceName privateKey publicKey ip dynamic =
     \<lparr>pc_ID = new_uuid rd, pc_UserID = userID, pc_ServerID = serverID,
      pc_DeviceType = deviceType, pc_DeviceName = deviceName, pc_PublicKey = publicKey,
      pc_PrivateKey = privateKey, pc_IP = ip, pc_ServerIP = ServerIP cfg,
      pc_CreatedAt = now_created rd, pc_UpdatedAt = now_updated rd, pc_Dynamic = dynamic\<rparr>"

text \<open>
  \<^verbatim>\<open>CreatePeer\<close>. The result is the returned pair (an error, or the peer) and the
  disk the call leaves.
\<close>

definition CreatePeer ::
  "WireGuardConfig \<Rightarrow> readings \<Rightarrow> node
     \<Rightarrow> string \<Rightarrow> string \<Rightarrow> string \<Rightarrow> string \<Rightarrow> (error + PeerConfig) \<times> node" where
  "CreatePeer cfg rd disk userID serverID deviceType deviceName =
     (case generateKeyPair of
        Inl e \<Rightarrow> (Inl (Wrap ''failed to generate key pair'' e), disk)
      | Inr (privateKey, publicKey) \<Rightarrow>
         (case allocateIP of
            Inl e \<Rightarrow> (Inl (Wrap ''failed to allocate IP address'' e), disk)
          | Inr ip \<Rightarrow>
             (let peer = new_peer cfg rd userID serverID deviceType deviceName
                           privateKey publicKey ip False in
              case savePeerConfig cfg disk peer of
                (Some e, disk') \<Rightarrow> (Inl (Wrap ''failed to save peer config'' e), disk')
              | (None, disk') \<Rightarrow>
                 (case applyConfiguration disk' of
                    Some e \<Rightarrow> (Inl (Wrap ''failed to apply configuration'' e), disk')
                  | None \<Rightarrow> (Inr peer, disk')))))"

definition CreateDynamicPeer ::
  "WireGuardConfig \<Rightarrow> readings \<Rightarrow> node
     \<Rightarrow> string \<Rightarrow> string \<Rightarrow> string \<Rightarrow> string \<Rightarrow> (error + PeerConfig) \<times> node" where
  "CreateDynamicPeer cfg rd disk userID serverID deviceType deviceName =
     (case generateKeyPair of
        Inl e \<Rightarrow> (Inl (Wrap ''failed to generate key pair'' e), disk)
      | Inr (privateKey, publicKey) \<Rightarrow>
         (case allocateIP of
            Inl e \<Rightarrow> (Inl (Wrap ''failed to allocate IP address'' e), disk)
          | Inr ip \<Rightarrow>
             (let peer = new_peer cfg rd userID serverID deviceType deviceName
                           privateKey publicKey ip True in
              case saveDynamicPeerConfig cfg disk peer of
                (Some e, disk') \<Rightarrow> (Inl (Wrap ''failed to save dynamic peer config'' e), disk')
              | (None, disk') \<Rightarrow>
                 (case applyConfiguration disk' of
                    Some e \<Rightarrow> (Inl (Wrap ''failed to apply configuration'' e), disk')
                  | None \<Rightarrow> (Inr peer, disk')))))"

text \<open>
  \<^verbatim>\<open>RemovePeer\<close>: read the record, delete its directory, then apply the
  configuration.
\<close>

definition RemovePeer ::
  "WireGuardConfig \<Rightarrow> node \<Rightarrow> string \<Rightarrow> string
     \<Rightarrow> error option \<times> node" where
  "RemovePeer cfg disk userID peerID =
     (case getPeerConfig cfg disk userID peerID of
        Inl e \<Rightarrow> (Some (Wrap ''failed to get peer config'' e), disk)
      | Inr peer \<Rightarrow>
         (case deletePeerConfig cfg disk peer of
            (Some e, disk') \<Rightarrow> (Some (Wrap ''failed to delete peer config'' e), disk')
          | (None, disk') \<Rightarrow>
             (case applyConfiguration disk' of
                Some e \<Rightarrow> (Some (Wrap ''failed to apply configuration'' e), disk')
              | None \<Rightarrow> (None, disk'))))"

text \<open>
  The order in which \<^verbatim>\<open>RemovePeer\<close> does what it does to the outside: \<open>Removed p\<close>
  stands for \<^verbatim>\<open>os.RemoveAll(p)\<close> having returned \<^verbatim>\<open>nil\<close>, \<open>Applied\<close> for
  \<^verbatim>\<open>applyConfiguration\<close> having returned \<^verbatim>\<open>nil\<close>. \<open>RemovePeer_effects\<close> follows
  the body of \<^verbatim>\<open>RemovePeer\<close> and lists these events as they happen.
\<close>

datatype effect = Removed path | Applied

definition RemovePeer_effects :: "WireGuardConfig \<Rightarrow> node \<Rightarrow> string \<Rightarrow> string \<Rightarrow> effect list" where
  "RemovePeer_effects cfg disk userID peerID =
     (case getPeerConfig cfg disk userID peerID of
        Inl e \<Rightarrow> []
      | Inr peer \<Rightarrow>
         (case deletePeerConfig cfg disk peer of
            (Some e, disk') \<Rightarrow> []
          | (None, disk') \<Rightarrow>
             Removed (Join [] [ConfigDir cfg, pc_UserID peer, pc_ID peer])
             # (case applyConfiguration disk' of
                  Some e \<Rightarrow> []
                | None \<Rightarrow> [Applied])))"

definition RemoveDynamicPeer ::
  "WireGuardConfig \<Rightarrow> node \<Rightarrow> string \<Rightarrow> string
     \<Rightarrow> error option \<times> node" where
  "RemoveDynamicPeer cfg disk userID peerID =
     (case getDynamicPeerConfig cfg disk userID peerID of
        Inl e \<Rightarrow> (Some (Wrap ''failed to get dynamic peer config'' e), disk)
      | Inr peer \<Rightarrow>
         (case deleteDynamicPeerConfig cfg disk peer of
            (Some e, disk') \<Rightarrow> (Some (Wrap ''failed to delete dynamic peer config'' e), disk')
          | (None, disk') \<Rightarrow>
             (case applyConfiguration disk' of
                Some e \<Rightarrow> (Some (Wrap ''failed to apply configuration'' e), disk')
              | None \<Rightarrow> (None, disk'))))"

definition GetPeer :: "WireGuardConfig \<Rightarrow> node \<Rightarrow> string \<Rightarrow> string \<Rightarrow> error + PeerConfig" where
  "GetPeer cfg disk userID peerID =
     (case getPeerConfig cfg disk userID peerID of
        Inr peer \<Rightarrow> Inr peer
      | Inl e \<Rightarrow> getDynamicPeerConfig cfg disk userID peerID)"

text \<open>
  The loops of \<^verbatim>\<open>getStaticPeers\<close> and \<^verbatim>\<open>getDynamicPeers\<close> over the directory
  entries: an entry that is a directory is read as a peer, and skipped (with a log line)
  when reading fails.
\<close>

fun static_peers_loop ::
  "WireGuardConfig \<Rightarrow> node \<Rightarrow> string \<Rightarrow> (string \<times> bool) list \<Rightarrow> PeerConfig list" where
  "static_peers_loop cfg disk userID [] = []"
| "static_peers_loop cfg disk userID ((name, isDir) # entries) =
     (if isDir then
        (case getPeerConfig cfg disk userID name of
           Inl e \<Rightarrow> static_peers_loop cfg disk userID entries
         | Inr peer \<Rightarrow> peer # static_peers_loop cfg disk userID entries)
      else static_peers_loop cfg disk userID entries)"

fun dynamic_peers_loop ::
  "WireGuardConfig \<Rightarrow> node \<Rightarrow> string \<Rightarrow> (string \<times> bool) list \<Rightarrow> PeerConfig list" where
  "dynamic_peers_loop cfg disk userID [] = []"
| "dynamic_peers_loop cfg disk userID ((name, isDir) # entries) =
     (if isDir then
        (case getDynamicPeerConfig cfg disk userID name of
           Inl e \<Rightarrow> dynamic_peers_loop cfg disk userID entries
         | Inr peer \<Rightarrow> peer # dynamic_peers_loop cfg disk userID entries)
      else dynamic_peers_loop cfg disk userID entries)"

definition getStaticPeers :: "WireGuardConfig \<Rightarrow> node \<Rightarrow> string \<Rightarrow> error + PeerConfig list" where
  "getStaticPeers cfg disk userID =
     (let userDir = Join [] [ConfigDir cfg, userID] in
      if IsNotExist (lookup disk userDir) then Inr []
      else (case ReadDir disk userDir of
              Inl e \<Rightarrow> Inl (Wrap ''failed to read user directory'' (Sys e))
            | Inr entries \<Rightarrow> Inr (static_peers_loop cfg disk userID entries)))"

definition getDynamicPeers :: "WireGuardConfig \<Rightarrow> node \<Rightarrow> string \<Rightarrow> error + PeerConfig list" where
  "getDynamicPeers cfg disk userID =
     (let userDir = Join [] [DynamicPeerDir cfg, userID] in
      if IsNotExist (lookup disk userDir) then Inr []
      else (case ReadDir disk userDir of
              Inl e \<Rightarrow> Inl (Wrap ''failed to read user directory'' (Sys e))
            | Inr entries \<Rightarrow> Inr (dynamic_peers_loop cfg disk userID entries)))"

definition GetPeers :: "WireGuardConfig \<Rightarrow> node \<Rightarrow> string \<Rightarrow> error + PeerConfig list" where
  "GetPeers cfg disk userID =
     (case getStaticPeers cfg disk userID of
        Inl e \<Rightarrow> Inl (Wrap ''failed to get static peers'' e)
      | Inr staticPeers \<Rightarrow>
         (case getDynamicPeers cfg disk userID of
            Inl e \<Rightarrow> Inl (Wrap ''failed to get dynamic peers'' e)
          | Inr dynamicPeers \<Rightarrow> Inr (staticPeers @ dynamicPeers)))"

section \<open>Rendering a configuration\<close>

text \<open>
  \<^verbatim>\<open>strings.ToLower\<close> on the ASCII letters (the device types the source compares
  with are ASCII), \<^verbatim>\<open>%d\<close> of \<^verbatim>\<open>fmt.Sprintf\<close>, and \<^verbatim>\<open>strings.ReplaceAll\<close>:
  the occurrences of \<open>old\<close> are found from the left and do not overlap, and the text
  put in is not searched again. (For an empty \<open>old\<close> Go inserts \<open>new\<close> around every
  character; the patterns of this program are never empty.)
\<close>

definition to_lower_char :: "char \<Rightarrow> char" where
  "to_lower_char c =
     (let n = (of_char c :: nat) in if 65 \<le> n \<and> n \<le> 90 then char_of (n + 32) else c)"

definition ToLower :: "string \<Rightarrow> string" where
  "ToLower s = map to_lower_char s"

function decimal :: "int \<Rightarrow> string" where
  "decimal n =
     (if n < 10 then [char_of (48 + n)]
      else decimal (n div 10) @ [char_of (48 + n mod 10)])"
  by pat_completeness auto
termination
  by (relation "measure nat") auto

declare decimal.simps [simp del]

definition Sprintf_d :: "int \<Rightarrow> string" where
  "Sprintf_d i = (if i < 0 then CHR ''-'' # decimal (- i) else decimal i)"

function ReplaceAll :: "string \<Rightarrow> string \<Rightarrow> string \<Rightarrow> string" where
  "ReplaceAll s old new =
     (if old = [] then new @ concat (map (\<lambda>c. c # new) s)
      else if s = [] then []
      else if prefix old s then new @ ReplaceAll (drop (length old) s) old new
      else hd s # ReplaceAll (tl s) old new)"
  by pat_completeness auto
termination
  by (relation "measure (\<lambda>(s, old, new). length s)") auto

declare ReplaceAll.simps [simp del]

text \<open>
  \<^verbatim>\<open>getConfigTemplate\<close> reads a file of the directory
  \<^verbatim>\<open>vpn/wireguard/config_templates\<close>; \<open>templates\<close> maps the names of the files of
  that directory to their contents.
\<close>

definition getConfigTemplate :: "(string \<rightharpoonup> string) \<Rightarrow> string \<Rightarrow> error + string" where
  "getConfigTemplate templates deviceType =
     (let lower = ToLower deviceType;
          templateFile =
            (if lower = ''android'' then ''android.conf''
             else if lower = ''ios'' \<or> lower = ''iphone'' \<or> lower = ''ipad'' then ''ios.conf''
             else if lower = ''windows'' then ''windows.conf''
             else if lower = ''mac'' \<or> lower = ''macos'' then ''mac.conf''
             else ''generic.conf'')
      in case templates templateFile of
           None \<Rightarrow> Inl (Wrap ''failed to read template file'' (Sys ENOENT))
         | Some content \<Rightarrow> Inr content)"

text \<open>
  \<^verbatim>\<open>replaceConfigPlaceholders\<close> ranges over the Go map \<open>replacements\<close>; \<open>order\<close>
  is the order in which the runtime visits its keys.
\<close>

definition placeholder :: "string \<Rightarrow> string" where
  "placeholder key = ''{{'' @ key @ ''}}''"

definition replaceConfigPlaceholders ::
  "string list \<Rightarrow> string \<Rightarrow> (string \<rightharpoonup> string) \<Rightarrow> string" where
  "replaceConfigPlaceholders order template replacements =
     fold (\<lambda>key result.
             case replacements key of
               None \<Rightarrow> result
             | Some v \<Rightarrow> ReplaceAll result (placeholder key) v)
          order template"

definition config_replacements :: "WireGuardConfig \<Rightarrow> PeerConfig \<Rightarrow> (string \<times> string) list" where
  "config_replacements cfg peer =
     [(''PRIVATE_KEY'', pc_PrivateKey peer),
      (''CLIENT_IP'', pc_IP peer),
      (''SERVER_PUBLIC_KEY'', PublicKey cfg),
      (''SERVER_ENDPOINT'', ServerEndpoint cfg @ '':'' @ Sprintf_d (ListenPort cfg)),
      (''DNS'', DNS cfg),
      (''ALLOWED_IPS'', AllowedIPs cfg),
      (''PERSISTENT_KEEPALIVE'', ''25'')]"

definition GenerateConfig ::
  "WireGuardConfig \<Rightarrow> (string \<rightharpoonup> string) \<Rightarrow> string list \<Rightarrow> PeerConfig \<Rightarrow> error + string" where
  "GenerateConfig cfg templates order peer =
     (case getConfigTemplate templates (pc_DeviceType peer) of
        Inl e \<Rightarrow> Inl (Wrap ''failed to get config template'' e)
      | Inr template \<Rightarrow>
          Inr (replaceConfigPlaceholders order template
                 (map_of (config_replacements cfg peer))))"

text \<open>An order is one the runtime can choose when it visits each key of the map once.\<close>

definition is_key_order :: "string list \<Rightarrow> (string \<times> string) list \<Rightarrow> bool" where
  "is_key_order order replacements =
     (distinct order \<and> set order = set (map fst replacements))"

section \<open>The connection manager (package core)\<close>

text \<open>
  What the connection manager works on: the disk below the peer directories, the
  template files, and the server registry.
\<close>

record world =
  w_disk :: node
  w_templates :: "string \<rightharpoonup> string"
  w_servers :: registry

text \<open>
  \<^verbatim>\<open>Connect\<close>: the server must exist and be online; the peer is created and its
  configuration rendered; then the load read from the server is stored again, one higher.
  The error of \<^verbatim>\<open>UpdateServerLoad\<close> is not looked at. The addition is Go's, on
  64-bit integers.
\<close>

definition Connect ::
  "WireGuardConfig \<Rightarrow> readings \<Rightarrow> world
     \<Rightarrow> string \<Rightarrow> string \<Rightarrow> string \<Rightarrow> string \<Rightarrow> (error + PeerConfig \<times> string) \<times> world" where
  "Connect cfg rd w userID serverID deviceType deviceName =
     (case GetServer (w_servers w) serverID of
        Inl e \<Rightarrow> (Inl (Msg (''server not found: '' @ serverID)), w)
      | Inr server \<Rightarrow>
         if Status server \<noteq> ''online''
         then (Inl (Msg (''server is not online: '' @ serverID)), w)
         else
          (case CreatePeer cfg rd (w_disk w) userID serverID deviceType deviceName of
             (Inl e, disk') \<Rightarrow> (Inl (Wrap ''failed to create peer'' e), w\<lparr>w_disk := disk'\<rparr>)
           | (Inr peer, disk') \<Rightarrow>
              (case GenerateConfig cfg (w_templates w) (replace_order rd) peer of
                 Inl e \<Rightarrow> (Inl (Wrap ''failed to generate configuration'' e), w\<lparr>w_disk := disk'\<rparr>)
               | Inr config \<Rightarrow>
                  (Inr (peer, config),
                   w\<lparr>w_disk := disk',
                     w_servers := snd (UpdateServerLoad (now_load rd) (w_servers w) serverID
                                       (go_int (Load server + 1)))\<rparr>))))"

definition DynamicConnect ::
  "WireGuardConfig \<Rightarrow> readings \<Rightarrow> world
     \<Rightarrow> string \<Rightarrow> string \<Rightarrow> string \<Rightarrow> string \<Rightarrow> (error + PeerConfig \<times> string) \<times> world" where
  "DynamicConnect cfg rd w userID serverID deviceType deviceName =
     (case GetServer (w_servers w) serverID of
        Inl e \<Rightarrow> (Inl (Msg (''server not found: '' @ serverID)), w)
      | Inr server \<Rightarrow>
         if Status server \<noteq> ''online''
         then (Inl (Msg (''server is not online: '' @ serverID)), w)
         else
          (case CreateDynamicPeer cfg rd (w_disk w) userID serverID deviceType
                  deviceName of
             (Inl e, disk') \<Rightarrow> (Inl (Wrap ''failed to create dynamic peer'' e), w\<lparr>w_disk := disk'\<rparr>)
           | (Inr peer, disk') \<Rightarrow>
              (case GenerateConfig cfg (w_templates w) (replace_order rd) peer of
                 Inl e \<Rightarrow> (Inl (Wrap ''failed to generate configuration'' e), w\<lparr>w_disk := disk'\<rparr>)
               | Inr config \<Rightarrow>
                  (Inr (peer, config),
                   w\<lparr>w_disk := disk',
                     w_servers := snd (UpdateServerLoad (now_load rd) (w_servers w) serverID
                                       (go_int (Load server + 1)))\<rparr>))))"

text \<open>
  \<^verbatim>\<open>Disconnect\<close>: the peer is looked up in both namespaces and removed from the
  static one; then the number \<open>0\<close> is stored as the load of the peer's server.
\<close>

definition Disconnect ::
  "WireGuardConfig \<Rightarrow> readings \<Rightarrow> world
     \<Rightarrow> string \<Rightarrow> string \<Rightarrow> error option \<times> world" where
  "Disconnect cfg rd w userID peerID =
     (case GetPeer cfg (w_disk w) userID peerID of
        Inl e \<Rightarrow> (Some (Msg (''peer not found: '' @ peerID)), w)
      | Inr peer \<Rightarrow>
         (case RemovePeer cfg (w_disk w) userID peerID of
            (Some e, disk') \<Rightarrow> (Some (Wrap ''failed to remove peer'' e), w\<lparr>w_disk := disk'\<rparr>)
          | (None, disk') \<Rightarrow>
             (None,
              w\<lparr>w_disk := disk',
                w_servers := snd (UpdateServerLoad (now_load rd) (w_servers w)
                                  (pc_ServerID peer) 0)\<rparr>)))"

definition DynamicDisconnect ::
  "WireGuardConfig \<Rightarrow> readings \<Rightarrow> world
     \<Rightarrow> string \<Rightarrow> string \<Rightarrow> error option \<times> world" where
  "DynamicDisconnect cfg rd w userID peerID =
     (case GetPeer cfg (w_disk w) userID peerID of
        Inl e \<Rightarrow> (Some (Msg (''peer not found: '' @ peerID)), w)
      | Inr peer \<Rightarrow>
         (case RemoveDynamicPeer cfg (w_disk w) userID peerID of
            (Some e, disk') \<Rightarrow>
              (Some (Wrap ''failed to remove dynamic peer'' e), w\<lparr>w_disk := disk'\<rparr>)
          | (None, disk') \<Rightarrow>
             (None,
              w\<lparr>w_disk := disk',
                w_servers := snd (UpdateServerLoad (now_load rd) (w_servers w)
                                  (pc_ServerID peer) 0)\<rparr>)))"

text \<open>
  \<^verbatim>\<open>GetStatus\<close> builds one \<^verbatim>\<open>PeerInfo\<close> for each peer of the user; the traffic
  counters are the constants of the source.
\<close>

fun status_loop :: "readings \<Rightarrow> registry \<Rightarrow> PeerConfig list \<Rightarrow> error + PeerInfo list" where
  "status_loop rd reg [] = Inr []"
| "status_loop rd reg (peer # peers) =
     (case GetServer reg (pc_ServerID peer) of
        Inl e \<Rightarrow> Inl (Msg (''server not found: '' @ pc_ServerID peer))
      | Inr server \<Rightarrow>
         (case status_loop rd reg peers of
            Inl e \<Rightarrow> Inl e
          | Inr infos \<Rightarrow>
             Inr (\<lparr>pi_ID = pc_ID peer, pi_ServerID = pc_ServerID peer,
                    pi_ServerName = Name server, pi_DeviceType = pc_DeviceType peer,
                    pi_DeviceName = pc_DeviceName peer, pi_IP = pc_IP peer,
                    pi_CreatedAt = pc_CreatedAt peer, pi_LastSeen = now_seen rd,
                    pi_BytesRx = 1024 * 1024 * 10, pi_BytesTx = 1024 * 1024 * 5\<rparr> # infos)))"

definition GetStatus :: "WireGuardConfig \<Rightarrow> readings \<Rightarrow> world \<Rightarrow> string \<Rightarrow> error + PeerInfo list" where
  "GetStatus cfg rd w userID =
     (case GetPeers cfg (w_disk w) userID of
        Inl e \<Rightarrow> Inl (Wrap ''failed to get peers'' e)
      | Inr peers \<Rightarrow> status_loop rd (w_servers w) peers)"

definition GetConfig :: "WireGuardConfig \<Rightarrow> readings \<Rightarrow> world \<Rightarrow> string \<Rightarrow> string \<Rightarrow> error + string" where
  "GetConfig cfg rd w userID peerID =
     (case GetPeer cfg (w_disk w) userID peerID of
        Inl e \<Rightarrow> Inl (Msg (''peer not found: '' @ peerID))
      | Inr peer \<Rightarrow>
         (case GenerateConfig cfg (w_templates w) (replace_order rd) peer of
            Inl e \<Rightarrow> Inl (Wrap ''failed to generate configuration'' e)
          | Inr config \<Rightarrow> Inr config))"

text \<open>A request to the connection manager, and a run of requests one after the other.\<close>

datatype request =
    ConnectReq string string string string
  | DisconnectReq string string
  | DynamicConnectReq string string string string
  | DynamicDisconnectReq string string

fun serve :: "WireGuardConfig \<Rightarrow> readings \<times> request \<Rightarrow> world \<Rightarrow> world" where
  "serve cfg (rd, ConnectReq userID serverID deviceType deviceName) w =
     snd (Connect cfg rd w userID serverID deviceType deviceName)"
| "serve cfg (rd, DisconnectReq userID peerID) w =
     snd (Disconnect cfg rd w userID peerID)"
| "serve cfg (rd, DynamicConnectReq userID serverID deviceType deviceName) w =
     snd (DynamicConnect cfg rd w userID serverID deviceType deviceName)"
| "serve cfg (rd, DynamicDisconnectReq userID peerID) w =
     snd (DynamicDisconnect cfg rd w userID peerID)"

definition run :: "WireGuardConfig \<Rightarrow> (readings \<times> request) list \<Rightarrow> world \<Rightarrow> world" where
  "run cfg reqs w = fold (serve cfg) reqs w"

section \<open>Templates as literal text and placeholders\<close>

text \<open>
  Notions for stating what rendering does. A template that is written as intended is a
  sequence of pieces: literal text, and placeholders \<^verbatim>\<open>{{NAME}}\<close>. A piece is plain
  when its literal text has no opening brace and its placeholder name has no brace at
  all. \<open>fill m\<close> puts the value \<open>m\<close> gives for a name in the place of its placeholder,
  for all names at once; \<open>fill_one k v\<close> does so for the single name \<open>k\<close>.
\<close>

datatype piece = Lit string | Hole string

fun piece_text :: "piece \<Rightarrow> string" where
  "piece_text (Lit s) = s"
| "piece_text (Hole k) = placeholder k"

definition render :: "piece list \<Rightarrow> string" where
  "render ps = concat (map piece_text ps)"

definition plain_key :: "string \<Rightarrow> bool" where
  "plain_key k = (CHR ''{'' \<notin> set k \<and> CHR ''}'' \<notin> set k)"

fun plain_piece :: "piece \<Rightarrow> bool" where
  "plain_piece (Lit s) = (CHR ''{'' \<notin> set s)"
| "plain_piece (Hole k) = plain_key k"

fun fill :: "(string \<rightharpoonup> string) \<Rightarrow> piece \<Rightarrow> piece" where
  "fill m (Lit s) = Lit s"
| "fill m (Hole k) = (case m k of None \<Rightarrow> Hole k | Some v \<Rightarrow> Lit v)"

fun fill_one :: "string \<Rightarrow> string \<Rightarrow> piece \<Rightarrow> piece" where
  "fill_one k v (Lit s) = Lit s"
| "fill_one k v (Hole k') = (if k' = k then Lit v else Hole k')"

section \<open>Concrete inputs\<close>

text \<open>
  The defaults that \<^verbatim>\<open>config.Load\<close> sets (it sets no public key), readings for a
  call, the keys of the replacement map in the order the source writes them, a template,
  and two worlds to run requests in.
\<close>

definition default_config :: WireGuardConfig where
  "default_config =
     \<lparr>ConfigDir = ''/etc/wireguard'', DynamicPeerDir = ''/etc/wireguard/dynamic-peers'',
      ListenPort = 51820, PublicKey = [], DNS = ''1.1.1.1,8.8.8.8'',
      ServerIP = ''10.0.0.1'', ServerEndpoint = ''vpn.example.com'',
      AllowedIPs = ''0.0.0.0/0, ::/0''\<rparr>"

definition source_key_order :: "string list" where
  "source_key_order =
     [''PRIVATE_KEY'', ''CLIENT_IP'', ''SERVER_PUBLIC_KEY'', ''SERVER_ENDPOINT'', ''DNS'',
      ''ALLOWED_IPS'', ''PERSISTENT_KEEPALIVE'']"

definition readings_at :: "string \<Rightarrow> gotime \<Rightarrow> readings" where
  "readings_at uuid now =
     \<lparr>new_uuid = uuid, now_created = now, now_updated = now, now_load = now,
      now_seen = now, replace_order = source_key_order\<rparr>"

definition sample_pieces :: "piece list" where
  "sample_pieces =
     [Lit ''PrivateKey = '', Hole ''PRIVATE_KEY'', Lit [CHR 0x0A],
      Lit ''Address = '', Hole ''CLIENT_IP'', Lit [CHR 0x0A],
      Lit ''DNS = '', Hole ''DNS'', Lit [CHR 0x0A],
      Lit ''Endpoint = '', Hole ''SERVER_ENDPOINT'', Lit [CHR 0x0A],
      Lit ''AllowedIPs = '', Hole ''ALLOWED_IPS'', Lit [CHR 0x0A]]"

definition sample_templates :: "string \<rightharpoonup> string" where
  "sample_templates = [''generic.conf'' \<mapsto> render sample_pieces]"

definition initial_world :: world where
  "initial_world =
     \<lparr>w_disk = NewPeerManager default_config (Dir []), w_templates = sample_templates,
      w_servers = initializeServers 0\<rparr>"

text \<open>A registry with a single online server that has room for one peer.\<close>

definition one_slot_world :: world where
  "one_slot_world =
     \<lparr>w_disk = NewPeerManager default_config (Dir []), w_templates = sample_templates,
      w_servers = [''s1'' \<mapsto> \<lparr>ID = ''s1'', Name = ''One slot'', Country = ''Ireland'',
         City = ''Dublin'', IP = ''192.168.1.9'', Load = 0, Capacity = 1,
         Status = ''online'', LastUpdated = 0\<rparr>]\<rparr>"

definition two_connects :: "(readings \<times> request) list" where
  "two_connects =
     [(readings_at ''p1'' 1, ConnectReq ''alice'' ''s1'' ''generic'' ''laptop''),
      (readings_at ''p2'' 2, ConnectReq ''bob'' ''s1'' ''generic'' ''phone'')]"

text \<open>
  Three peers created one after the other on an empty disk: two static ones and a
  dynamic one.
\<close>

definition first_create :: "(error + PeerConfig) \<times> node" where
  "first_create =
     CreatePeer default_config (readings_at ''p1'' 1) (Dir [])
       ''alice'' ''us-east-1'' ''generic'' ''laptop''"

definition second_create :: "(error + PeerConfig) \<times> node" where
  "second_create =
     CreatePeer default_config (readings_at ''p2'' 2) (snd first_create)
       ''bob'' ''us-east-1'' ''android'' ''phone''"

definition third_create :: "(error + PeerConfig) \<times> node" where
  "third_create =
     CreateDynamicPeer default_config (readings_at ''p3'' 3) (snd second_create)
       ''carol'' ''eu-west-1'' ''ios'' ''tablet''"

text \<open>
  The process stops after the first two peers were created and starts again on the disk
  it left: \<^verbatim>\<open>NewPeerManager\<close> runs, and the next peer is requested.
\<close>

definition create_after_restart :: "(error + PeerConfig) \<times> node" where
  "create_after_restart =
     CreatePeer default_config (readings_at ''p4'' 4)
       (NewPeerManager default_config (snd second_create))
       ''dave'' ''us-west-1'' ''generic'' ''desktop''"

text \<open>Two users connect to \<open>us-east-1\<close>; then the first one disconnects.\<close>

definition after_two_connects :: world where
  "after_two_connects =
     run default_config
       [(readings_at ''p1'' 1, ConnectReq ''alice'' ''us-east-1'' ''generic'' ''laptop''),
        (readings_at ''p2'' 2, ConnectReq ''bob'' ''us-east-1'' ''generic'' ''phone'')]
       initial_world"

definition disconnect_first :: "error option \<times> world" where
  "disconnect_first =
     Disconnect default_config (readings_at [] 3) after_two_connects ''alice'' ''p1''"

text \<open>
  A configuration whose DNS entry is itself the text of a placeholder, and two orders
  of the seven keys.
\<close>

definition odd_config :: WireGuardConfig where
  "odd_config = default_config\<lparr>DNS := ''{{ALLOWED_IPS}}''\<rparr>"

definition dns_first :: "string list" where
  "dns_first =
     [''DNS'', ''ALLOWED_IPS'', ''PRIVATE_KEY'', ''CLIENT_IP'', ''SERVER_PUBLIC_KEY'',
      ''SERVER_ENDPOINT'', ''PERSISTENT_KEEPALIVE'']"

definition dns_last :: "string list" where
  "dns_last =
     [''ALLOWED_IPS'', ''PRIVATE_KEY'', ''CLIENT_IP'', ''SERVER_PUBLIC_KEY'',
      ''SERVER_ENDPOINT'', ''PERSISTENT_KEEPALIVE'', ''DNS'']"

definition sample_peer :: PeerConfig where
  "sample_peer =
     new_peer default_config (readings_at ''p1'' 1) ''alice'' ''us-east-1'' ''generic''
       ''laptop'' ''YAnV4SnPYEA+jS6nQtxF5lS3jj0gqXBVVeP9tz/bP2A=''
       ''zzz3UBcqiV9RsYCzJWOU5VVVNk3VtQECQXXPnQiEfQQ='' ''10.0.0.2/32'' False"

text \<open>What two peers must not share: the public key and the address of a created peer.\<close>

definition key_and_address :: "error + PeerConfig \<Rightarrow> error + string \<times> string" where
  "key_and_address r = map_sum id (\<lambda>peer. (pc_PublicKey peer, pc_IP peer)) r"

definition address_of :: "error + PeerConfig \<Rightarrow> error + string" where
  "address_of r = map_sum id pc_IP r"

section \<open>Facts about paths and files\<close>

lemma Join_metadata: "Join b (xs @ [''metadata.json'']) = Join b xs @ [''metadata.json'']"
  by (simp add: Join_def clean_step_def)

lemma RemoveAll_lookup: "RemoveAll n p = (None, n') \<Longrightarrow> lookup n' (p @ q) = Inl ENOENT"
proof (induction n p arbitrary: n' rule: RemoveAll.induct)
  case (1 n)
  then show ?case by simp
next
  case (2 n c)
  then show ?case
    by (auto split: node.splits simp: delete_conv')
next
  case (3 n c v va)
  from "3.prems" obtain es where n: "n = Dir es"
    by (auto split: node.splits)
  show ?case
  proof (cases "map_of es c")
    case None
    with "3.prems" n show ?thesis by auto
  next
    case (Some m)
    with "3.prems" n obtain m' where r: "RemoveAll m (v # va) = (None, m')"
      and n': "n' = Dir (AList.update c m' es)"
      by (auto split: prod.splits)
    from "3.IH"[OF n Some r] have "lookup m' ((v # va) @ q) = Inl ENOENT" .
    then show ?thesis using n' by (simp add: update_conv')
  qed
qed

lemma deletePeerConfig_then_get:
  assumes "deletePeerConfig cfg d peer = (None, d')"
  shows "IsNotExist (lookup d' (Join [] [ConfigDir cfg, pc_UserID peer, pc_ID peer]))"
    and "getPeerConfig cfg d' (pc_UserID peer) (pc_ID peer)
           = Inl (Msg (''peer not found: '' @ pc_ID peer))"
proof -
  let ?dir = "Join [] [ConfigDir cfg, pc_UserID peer, pc_ID peer]"
  from assms have r: "RemoveAll d ?dir = (None, d')"
    by (auto simp: deletePeerConfig_def Let_def split: if_splits prod.splits option.splits)
  from RemoveAll_lookup[OF r, of "[]"] show "IsNotExist (lookup d' ?dir)"
    by (simp add: IsNotExist_def)
  have "Join [] [ConfigDir cfg, pc_UserID peer, pc_ID peer, ''metadata.json'']
          = ?dir @ [''metadata.json'']"
    using Join_metadata[of "[]" "[ConfigDir cfg, pc_UserID peer, pc_ID peer]"] by simp
  with RemoveAll_lookup[OF r, of "[''metadata.json'']"]
  show "getPeerConfig cfg d' (pc_UserID peer) (pc_ID peer)
          = Inl (Msg (''peer not found: '' @ pc_ID peer))"
    by (simp add: getPeerConfig_def IsNotExist_def)
qed

lemma RemoveAll_of_existing:
  "lookup n p = Inr m \<Longrightarrow> p \<noteq> [] \<Longrightarrow> fst (RemoveAll n p) = None"
proof (induction n p arbitrary: m rule: RemoveAll.induct)
  case (1 n)
  then show ?case by simp
next
  case (2 n c)
  then show ?case by (auto split: node.splits option.splits)
next
  case (3 n c v va)
  from "3.prems"(1) obtain es k where n: "n = Dir es" and k: "map_of es c = Some k"
    and l: "lookup k (v # va) = Inr m"
    by (auto split: node.splits option.splits)
  from "3.IH"[OF n k l] have "fst (RemoveAll k (v # va)) = None" by simp
  then show ?case
    using n k by (auto split: prod.splits)
qed

lemma deletePeerConfig_of_existing:
  assumes "lookup d (Join [] [ConfigDir cfg, pc_UserID peer, pc_ID peer]) = Inr m"
      and "Join [] [ConfigDir cfg, pc_UserID peer, pc_ID peer] \<noteq> []"
  shows "fst (deletePeerConfig cfg d peer) = None"
  using RemoveAll_of_existing[OF assms] assms(1)
  by (auto simp: deletePeerConfig_def IsNotExist_def split: prod.splits option.splits)

section \<open>Facts about replacing placeholders\<close>

lemma render_Nil: "render [] = []"
  by (simp add: render_def)

lemma render_Cons: "render (p # ps) = piece_text p @ render ps"
  by (simp add: render_def)

lemma placeholder_Cons: "placeholder k = CHR ''{'' # CHR ''{'' # k @ ''}}''"
  by (simp add: placeholder_def)

lemma ReplaceAll_Nil: "old \<noteq> [] \<Longrightarrow> ReplaceAll [] old new = []"
  by (simp add: ReplaceAll.simps)

lemma ReplaceAll_match:
  "old \<noteq> [] \<Longrightarrow> ReplaceAll (old @ rest) old new = new @ ReplaceAll rest old new"
  by (subst ReplaceAll.simps) simp

lemma ReplaceAll_skip:
  "old \<noteq> [] \<Longrightarrow> \<not> prefix old (c # cs) \<Longrightarrow> ReplaceAll (c # cs) old new = c # ReplaceAll cs old new"
  by (subst ReplaceAll.simps) simp

lemma ReplaceAll_literal:
  "CHR ''{'' \<notin> set s \<Longrightarrow>
     ReplaceAll (s @ rest) (placeholder k) v = s @ ReplaceAll rest (placeholder k) v"
proof (induction s)
  case Nil
  then show ?case by simp
next
  case (Cons c s)
  then have "c \<noteq> CHR ''{''" by auto
  then have "\<not> prefix (placeholder k) (c # s @ rest)"
    by (simp add: placeholder_Cons)
  then have "ReplaceAll (c # s @ rest) (placeholder k) v = c # ReplaceAll (s @ rest) (placeholder k) v"
    by (intro ReplaceAll_skip) (simp_all add: placeholder_Cons)
  with Cons show ?case by simp
qed

lemma key_prefix_eq:
  "CHR ''}'' \<notin> set k \<Longrightarrow> CHR ''}'' \<notin> set k' \<Longrightarrow>
     prefix (k @ CHR ''}'' # r) (k' @ CHR ''}'' # r') \<Longrightarrow> k = k'"
proof (induction k arbitrary: k')
  case Nil
  then show ?case by (cases k') auto
next
  case (Cons a k)
  then show ?case by (cases k') auto
qed

lemma ReplaceAll_other_hole:
  assumes "plain_key k" "plain_key k'" "k \<noteq> k'"
  shows "ReplaceAll (placeholder k' @ rest) (placeholder k) v
           = placeholder k' @ ReplaceAll rest (placeholder k) v"
proof -
  let ?pat = "placeholder k"
  have ne: "?pat \<noteq> []" by (simp add: placeholder_Cons)
  have 1: "\<not> prefix ?pat (CHR ''{'' # CHR ''{'' # k' @ ''}}'' @ rest)"
  proof
    assume "prefix ?pat (CHR ''{'' # CHR ''{'' # k' @ ''}}'' @ rest)"
    then have "prefix (k @ CHR ''}'' # ''}'') (k' @ CHR ''}'' # (''}'' @ rest))"
      by (simp add: placeholder_Cons)
    then have "k = k'"
      using assms(1,2) by (intro key_prefix_eq[of k k']) (auto simp: plain_key_def)
    with assms(3) show False by simp
  qed
  have 2: "\<not> prefix ?pat (CHR ''{'' # k' @ ''}}'' @ rest)"
    using assms(2) by (cases k') (auto simp: placeholder_Cons plain_key_def)
  have 3: "CHR ''{'' \<notin> set (k' @ ''}}'')"
    using assms(2) by (simp add: plain_key_def)
  have "ReplaceAll (placeholder k' @ rest) ?pat v
          = CHR ''{'' # ReplaceAll (CHR ''{'' # k' @ ''}}'' @ rest) ?pat v"
    using ReplaceAll_skip[OF ne 1] by (simp add: placeholder_Cons[of k'])
  also have "\<dots> = CHR ''{'' # CHR ''{'' # ReplaceAll ((k' @ ''}}'') @ rest) ?pat v"
    using ReplaceAll_skip[OF ne 2] by simp
  also have "\<dots> = CHR ''{'' # CHR ''{'' # (k' @ ''}}'') @ ReplaceAll rest ?pat v"
    using ReplaceAll_literal[OF 3] by simp
  finally show ?thesis by (simp add: placeholder_Cons[of k'])
qed

lemma ReplaceAll_render:
  assumes "plain_key k" "list_all plain_piece ps"
  shows "ReplaceAll (render ps) (placeholder k) v = render (map (fill_one k v) ps)"
  using assms(2)
proof (induction ps)
  case Nil
  then show ?case by (simp add: render_Nil ReplaceAll_Nil placeholder_Cons)
next
  case (Cons p ps)
  then have ih: "ReplaceAll (render ps) (placeholder k) v = render (map (fill_one k v) ps)"
    by simp
  show ?case
  proof (cases p)
    case (Lit s)
    with Cons.prems have "CHR ''{'' \<notin> set s" by simp
    then show ?thesis
      using ih Lit by (simp add: render_Cons ReplaceAll_literal)
  next
    case (Hole k')
    with Cons.prems have pk: "plain_key k'" by simp
    show ?thesis
    proof (cases "k' = k")
      case True
      have "ReplaceAll (placeholder k @ render ps) (placeholder k) v
              = v @ ReplaceAll (render ps) (placeholder k) v"
        by (rule ReplaceAll_match) (simp add: placeholder_Cons)
      then show ?thesis
        using ih Hole True by (simp add: render_Cons)
    next
      case False
      then have "ReplaceAll (placeholder k' @ render ps) (placeholder k) v
              = placeholder k' @ ReplaceAll (render ps) (placeholder k) v"
        using ReplaceAll_other_hole[OF assms(1) pk] by auto
      then show ?thesis
        using ih Hole False by (simp add: render_Cons)
    qed
  qed
qed

lemma plain_fill_one:
  "plain_piece p \<Longrightarrow> CHR ''{'' \<notin> set v \<Longrightarrow> plain_piece (fill_one k v p)"
  by (cases p) auto

lemma fill_fill_one:
  "k \<notin> K \<Longrightarrow> m k = Some v \<Longrightarrow> fill (m |` K) (fill_one k v p) = fill (m |` insert k K) p"
  by (cases p) (auto simp: restrict_map_def)

lemma fill_skip:
  "m k = None \<Longrightarrow> fill (m |` insert k K) p = fill (m |` K) p"
  by (cases p) (auto simp: restrict_map_def)

lemma fill_empty: "fill Map.empty p = p"
  by (cases p) auto

lemma replaceConfigPlaceholders_render:
  assumes "distinct order" "list_all plain_key order" "list_all plain_piece ps"
      and "\<And>k v. m k = Some v \<Longrightarrow> CHR ''{'' \<notin> set v"
  shows "replaceConfigPlaceholders order (render ps) m = render (map (fill (m |` set order)) ps)"
  using assms(1,2,3)
proof (induction order arbitrary: ps)
  case Nil
  have "map (fill Map.empty) ps = ps"
    by (induction ps) (simp_all add: fill_empty)
  then show ?case by (simp add: replaceConfigPlaceholders_def)
next
  case (Cons k ks)
  have step: "replaceConfigPlaceholders (k # ks) (render ps) m
      = replaceConfigPlaceholders ks
          (case m k of None \<Rightarrow> render ps | Some v \<Rightarrow> ReplaceAll (render ps) (placeholder k) v) m"
    by (simp add: replaceConfigPlaceholders_def)
  have ks: "distinct ks" "list_all plain_key ks" "plain_key k" "k \<notin> set ks"
    using Cons.prems by simp_all
  show ?case
  proof (cases "m k")
    case None
    have "replaceConfigPlaceholders (k # ks) (render ps) m
            = replaceConfigPlaceholders ks (render ps) m"
      using None by (simp add: step)
    also have "\<dots> = render (map (fill (m |` set ks)) ps)"
      using Cons.IH[OF ks(1,2) Cons.prems(3)] .
    also have "map (fill (m |` set ks)) ps = map (fill (m |` set (k # ks))) ps"
      using None by (simp add: fill_skip)
    finally show ?thesis .
  next
    case (Some v)
    let ?ps = "map (fill_one k v) ps"
    have v: "CHR ''{'' \<notin> set v" using assms(4) Some by blast
    have plain: "list_all plain_piece ?ps"
      using Cons.prems(3) v by (induction ps) (simp_all add: plain_fill_one)
    have eq: "map (fill (m |` set ks)) ?ps = map (fill (m |` set (k # ks))) ps"
      using ks(4) Some by (induction ps) (simp_all add: fill_fill_one)
    have "replaceConfigPlaceholders (k # ks) (render ps) m
            = replaceConfigPlaceholders ks (ReplaceAll (render ps) (placeholder k) v) m"
      using Some by (simp add: step)
    also have "\<dots> = replaceConfigPlaceholders ks (render ?ps) m"
      by (simp only: ReplaceAll_render[OF ks(3) Cons.prems(3)])
    also have "\<dots> = render (map (fill (m |` set ks)) ?ps)"
      using Cons.IH[OF ks(1,2) plain] .
    also note eq
    finally show ?thesis .
  qed
qed

lemma restrict_map_to_dom: "dom m = A \<Longrightarrow> m |` A = m"
  by (auto simp: restrict_map_def fun_eq_iff domIff)

lemma config_keys_plain: "list_all plain_key (map fst (config_replacements cfg peer))"
  by (simp add: config_replacements_def plain_key_def)

lemma GenerateConfig_fills_template:
  assumes "getConfigTemplate templates (pc_DeviceType peer) = Inr (render ps)"
      and "list_all plain_piece ps"
      and "list_all (\<lambda>(k, v). CHR ''{'' \<notin> set v) (config_replacements cfg peer)"
      and "is_key_order order (config_replacements cfg peer)"
  shows "GenerateConfig cfg templates order peer
           = Inr (render (map (fill (map_of (config_replacements cfg peer))) ps))"
proof -
  let ?m = "map_of (config_replacements cfg peer)"
  have d: "distinct order" and so: "set order = set (map fst (config_replacements cfg peer))"
    using assms(4) by (simp_all add: is_key_order_def)
  have pk: "list_all plain_key order"
    using config_keys_plain[of cfg peer] so by (auto simp: list_all_iff)
  have v: "\<And>k v. ?m k = Some v \<Longrightarrow> CHR ''{'' \<notin> set v"
    using assms(3) by (auto simp: list_all_iff dest: map_of_SomeD)
  have "dom ?m = set order"
    using so by (simp add: dom_map_of_conv_image_fst)
  then have r: "?m |` set order = ?m"
    by (rule restrict_map_to_dom)
  have "replaceConfigPlaceholders order (render ps) ?m = render (map (fill (?m |` set order)) ps)"
    using replaceConfigPlaceholders_render[OF d pk assms(2), of ?m] v by blast
  then show ?thesis
    using assms(1) r by (simp add: GenerateConfig_def)
qed

section \<open>Facts about the load of a server\<close>

lemma go_int_in_range: "0 \<le> x \<Longrightarrow> x < 2 ^ 63 \<Longrightarrow> go_int x = x"
  by (simp add: go_int_def)

lemma Connect_entry:
  assumes "w_servers w sid = Some s"
  shows "\<exists>s'. w_servers (snd (Connect cfg rd w userID serverID deviceType deviceName)) sid
                 = Some s'
            \<and> Capacity s' = Capacity s
            \<and> (Load s' = Load s \<or> Load s' = go_int (Load s + 1))"
  using assms
  by (auto simp: Connect_def GetServer_def UpdateServerLoad_def
      split: option.splits sum.splits prod.splits)

lemma DynamicConnect_entry:
  assumes "w_servers w sid = Some s"
  shows "\<exists>s'. w_servers (snd (DynamicConnect cfg rd w userID serverID deviceType
                                deviceName)) sid = Some s'
            \<and> Capacity s' = Capacity s
            \<and> (Load s' = Load s \<or> Load s' = go_int (Load s + 1))"
  using assms
  by (auto simp: DynamicConnect_def GetServer_def UpdateServerLoad_def
      split: option.splits sum.splits prod.splits)

lemma Disconnect_entry:
  assumes "w_servers w sid = Some s"
  shows "\<exists>s'. w_servers (snd (Disconnect cfg rd w userID peerID)) sid = Some s'
            \<and> Capacity s' = Capacity s \<and> (Load s' = Load s \<or> Load s' = 0)"
  using assms
  by (auto simp: Disconnect_def UpdateServerLoad_def
      split: option.splits sum.splits prod.splits)

lemma DynamicDisconnect_entry:
  assumes "w_servers w sid = Some s"
  shows "\<exists>s'. w_servers (snd (DynamicDisconnect cfg rd w userID peerID)) sid = Some s'
            \<and> Capacity s' = Capacity s \<and> (Load s' = Load s \<or> Load s' = 0)"
  using assms
  by (auto simp: DynamicDisconnect_def UpdateServerLoad_def
      split: option.splits sum.splits prod.splits)

lemma serve_entry:
  assumes "w_servers w sid = Some s"
  shows "\<exists>s'. w_servers (serve cfg rr w) sid = Some s'
            \<and> Capacity s' = Capacity s
            \<and> (Load s' = Load s \<or> Load s' = go_int (Load s + 1) \<or> Load s' = 0)"
proof (cases rr)
  case (Pair rd req)
  show ?thesis
  proof (cases req)
    case (ConnectReq u sv dt dn)
    with Pair Connect_entry[OF assms, of cfg rd u sv dt dn]
    show ?thesis by auto
  next
    case (DisconnectReq u pid)
    with Pair Disconnect_entry[OF assms, of cfg rd u pid]
    show ?thesis by auto
  next
    case (DynamicConnectReq u sv dt dn)
    with Pair DynamicConnect_entry[OF assms, of cfg rd u sv dt dn]
    show ?thesis by auto
  next
    case (DynamicDisconnectReq u pid)
    with Pair DynamicDisconnect_entry[OF assms, of cfg rd u pid]
    show ?thesis by auto
  qed
qed

section \<open>Facts about creating and removing a peer\<close>

text \<open>
  \<^verbatim>\<open>applyConfiguration\<close> always returns \<^verbatim>\<open>nil\<close>, so neither \<^verbatim>\<open>CreatePeer\<close> nor
  \<^verbatim>\<open>RemovePeer\<close> ever returns the error of their last branch.
\<close>

lemma CreatePeer_never_fails_applying:
  "fst (CreatePeer cfg rd d userID serverID deviceType deviceName)
     \<noteq> Inl (Wrap ''failed to apply configuration'' e)"
  by (auto simp: CreatePeer_def generateKeyPair_def allocateIP_def applyConfiguration_def
      Let_def split: prod.splits option.splits)

lemma RemovePeer_never_fails_applying:
  "fst (RemovePeer cfg d userID peerID) \<noteq> Some (Wrap ''failed to apply configuration'' e)"
  by (auto simp: RemovePeer_def applyConfiguration_def
      split: sum.splits prod.splits option.splits)

section \<open>The claims\<close>

text \<open>
  C1. Claimed: two successful \<^verbatim>\<open>CreatePeer\<close> (or \<^verbatim>\<open>CreateDynamicPeer\<close>) calls that
  leave two peers active at the same time return peers with distinct public keys and
  distinct addresses, and key generation returns no fixed key pair. In the source
  \<^verbatim>\<open>generateKeyPair\<close> returns the same two constants on every call and
  \<^verbatim>\<open>allocateIP\<close> the constant \<^verbatim>\<open>10.0.0.2/32\<close>; the comments of both say that a real
  implementation would do otherwise. Three peers created one after the other, two static
  and one dynamic, are all created, are all in the store at the end, and all have the
  same public key and the same address.
\<close>

theorem created_peers_share_key_and_address:
  "key_and_address (fst first_create)
     = Inr (''zzz3UBcqiV9RsYCzJWOU5VVVNk3VtQECQXXPnQiEfQQ='', ''10.0.0.2/32'')
   \<and> key_and_address (fst second_create)
     = Inr (''zzz3UBcqiV9RsYCzJWOU5VVVNk3VtQECQXXPnQiEfQQ='', ''10.0.0.2/32'')
   \<and> key_and_address (fst third_create)
     = Inr (''zzz3UBcqiV9RsYCzJWOU5VVVNk3VtQECQXXPnQiEfQQ='', ''10.0.0.2/32'')
   \<and> GetPeer default_config (snd third_create) ''alice'' ''p1'' = fst first_create
   \<and> GetPeer default_config (snd third_create) ''bob'' ''p2'' = fst second_create
   \<and> GetPeer default_config (snd third_create) ''carol'' ''p3'' = fst third_create"
  by code_simp

text \<open>
  C3. Claimed: \<^verbatim>\<open>RemovePeer\<close> deletes the stored record and releases address and key only
  after the interface was reconciled without the peer, and when reconciliation fails the
  record stays in the store unchanged. The source works in the other order: it reads the
  record, deletes its directory, and applies the configuration last (and applying cannot
  fail in this code, \<open>RemovePeer_never_fails_applying\<close>). What holds instead: for every
  call that finds the record, with the directory named by the user and the id stored in
  the record in place, \<^verbatim>\<open>RemovePeer\<close> returns no error, the directory is removed first
  and the configuration applied after that, and on the disk the call leaves the record is
  not found.
\<close>

theorem RemovePeer_deletes_then_applies:
  assumes "getPeerConfig cfg d userID peerID = Inr peer"
      and "lookup d (Join [] [ConfigDir cfg, pc_UserID peer, pc_ID peer]) = Inr m"
      and "Join [] [ConfigDir cfg, pc_UserID peer, pc_ID peer] \<noteq> []"
  shows "fst (RemovePeer cfg d userID peerID) = None
       \<and> RemovePeer_effects cfg d userID peerID
           = [Removed (Join [] [ConfigDir cfg, pc_UserID peer, pc_ID peer]), Applied]
       \<and> getPeerConfig cfg (snd (RemovePeer cfg d userID peerID)) (pc_UserID peer) (pc_ID peer)
           = Inl (Msg (''peer not found: '' @ pc_ID peer))"
proof -
  obtain d' where deleted: "deletePeerConfig cfg d peer = (None, d')"
    using deletePeerConfig_of_existing[OF assms(2,3)] by (cases "deletePeerConfig cfg d peer") auto
  have r: "RemovePeer cfg d userID peerID = (None, d')"
    using assms(1) deleted by (simp add: RemovePeer_def applyConfiguration_def)
  have e: "RemovePeer_effects cfg d userID peerID
             = [Removed (Join [] [ConfigDir cfg, pc_UserID peer, pc_ID peer]), Applied]"
    using assms(1) deleted by (simp add: RemovePeer_effects_def applyConfiguration_def)
  from deletePeerConfig_then_get(2)[OF deleted] r e show ?thesis by simp
qed

theorem RemovePeer_deletes_then_applies_witness:
  "getPeerConfig default_config (snd first_create) ''alice'' ''p1'' = Inr sample_peer
   \<and> lookup (snd first_create)
        (Join [] [ConfigDir default_config, pc_UserID sample_peer, pc_ID sample_peer])
      = Inr (Dir [(''metadata.json'', File (Json (marshal_PeerConfig sample_peer)))])
   \<and> Join [] [ConfigDir default_config, pc_UserID sample_peer, pc_ID sample_peer] \<noteq> []
   \<and> fst (RemovePeer default_config (snd first_create) ''alice'' ''p1'') = None
   \<and> RemovePeer_effects default_config (snd first_create) ''alice'' ''p1''
       = [Removed (Join [] [ConfigDir default_config, pc_UserID sample_peer, pc_ID sample_peer]),
          Applied]
   \<and> getPeerConfig default_config
        (snd (RemovePeer default_config (snd first_create) ''alice'' ''p1''))
        (pc_UserID sample_peer) (pc_ID sample_peer)
       = Inl (Msg (''peer not found: '' @ pc_ID sample_peer))"
proof -
  have a: "getPeerConfig default_config (snd first_create) ''alice'' ''p1'' = Inr sample_peer"
    by code_simp
  have b: "lookup (snd first_create)
        (Join [] [ConfigDir default_config, pc_UserID sample_peer, pc_ID sample_peer])
      = Inr (Dir [(''metadata.json'', File (Json (marshal_PeerConfig sample_peer)))])"
    by code_simp
  have c: "Join [] [ConfigDir default_config, pc_UserID sample_peer, pc_ID sample_peer] \<noteq> []"
    by code_simp
  from RemovePeer_deletes_then_applies[OF a b c] a b c show ?thesis by simp
qed

text \<open>
  The peer of \<open>first_create\<close> is in the store. Removing it succeeds, and its directory
  is removed before the configuration is applied, not after.
\<close>

theorem RemovePeer_order_counterexample:
  "getPeerConfig default_config (snd first_create) ''alice'' ''p1'' = Inr sample_peer
   \<and> fst (RemovePeer default_config (snd first_create) ''alice'' ''p1'') = None
   \<and> RemovePeer_effects default_config (snd first_create) ''alice'' ''p1''
       = [Removed [''etc'', ''wireguard'', ''alice'', ''p1''], Applied]"
  by code_simp

text \<open>
  C4. Claimed: for every sequence of connects and disconnects against a server of fixed
  capacity \<open>C\<close>, the load stays in \<open>[0, C]\<close>. \<^verbatim>\<open>Connect\<close> never looks at the
  capacity (the \<^verbatim>\<open>Server\<close> of the connection manager's own file has no such field), so
  the upper bound does not hold. What holds instead: over every run of connect and
  disconnect requests, static or dynamic, a server of the registry stays in the registry
  with its capacity unchanged, and its load never becomes negative; it grows by at most
  one with each request. The bound on the length keeps Go's 64-bit addition from
  wrapping around.
\<close>

theorem load_never_negative:
  assumes "w_servers w sid = Some s" and "0 \<le> Load s"
      and "Load s + int (length reqs) < 2 ^ 63"
  shows "\<exists>s'. w_servers (run cfg reqs w) sid = Some s'
            \<and> Capacity s' = Capacity s
            \<and> 0 \<le> Load s' \<and> Load s' \<le> Load s + int (length reqs)"
  using assms
proof (induction reqs arbitrary: w s)
  case Nil
  then show ?case by (simp add: run_def)
next
  case (Cons rr reqs)
  from serve_entry[OF Cons.prems(1), of cfg rr] obtain s1
    where s1: "w_servers (serve cfg rr w) sid = Some s1"
      and cap: "Capacity s1 = Capacity s"
      and load: "Load s1 = Load s \<or> Load s1 = go_int (Load s + 1) \<or> Load s1 = 0"
    by blast
  have "go_int (Load s + 1) = Load s + 1"
    using Cons.prems(2,3) by (intro go_int_in_range) simp_all
  with load Cons.prems(2) have bounds: "0 \<le> Load s1" "Load s1 \<le> Load s + 1"
    by auto
  with Cons.prems(3) have "Load s1 + int (length reqs) < 2 ^ 63"
    by simp
  from Cons.IH[OF s1 bounds(1) this] obtain s'
    where "w_servers (run cfg reqs (serve cfg rr w)) sid = Some s'"
      and "Capacity s' = Capacity s1" and "0 \<le> Load s'"
      and "Load s' \<le> Load s1 + int (length reqs)"
    by blast
  with cap bounds show ?case
    by (auto simp: run_def)
qed

theorem load_never_negative_witness:
  "w_servers one_slot_world ''s1''
     = Some \<lparr>ID = ''s1'', Name = ''One slot'', Country = ''Ireland'', City = ''Dublin'',
             IP = ''192.168.1.9'', Load = 0, Capacity = 1, Status = ''online'',
             LastUpdated = 0\<rparr>
   \<and> (\<exists>s'. w_servers (run default_config two_connects one_slot_world) ''s1'' = Some s'
          \<and> Capacity s' = 1 \<and> 0 \<le> Load s' \<and> Load s' \<le> 2)"
proof -
  let ?s = "\<lparr>ID = ''s1'', Name = ''One slot'', Country = ''Ireland'', City = ''Dublin'',
             IP = ''192.168.1.9'', Load = 0, Capacity = 1, Status = ''online'',
             LastUpdated = 0 :: nat\<rparr>"
  have h1: "w_servers one_slot_world ''s1'' = Some ?s"
    by (simp add: one_slot_world_def)
  have h2: "0 \<le> Load ?s" by simp
  have h3: "Load ?s + int (length two_connects) < 2 ^ 63"
    by (simp add: two_connects_def)
  from load_never_negative[OF h1 h2 h3, of default_config] h1 show ?thesis
    by (simp add: two_connects_def)
qed

text \<open>
  Two connects to a server with capacity \<open>1\<close> both succeed and leave it with load
  \<open>2\<close>.
\<close>

theorem load_exceeds_capacity_counterexample:
  "map_option (\<lambda>s. (Load s, Capacity s))
     (w_servers (run default_config two_connects one_slot_world) ''s1'') = Some (2, 1)"
  by code_simp

text \<open>
  C5. Claimed: a successful \<^verbatim>\<open>Disconnect\<close> leaves the load of the peer's server one
  below its value before the call. \<^verbatim>\<open>Connect\<close> stores \<^verbatim>\<open>server.Load+1\<close>, but
  \<^verbatim>\<open>Disconnect\<close> (and \<^verbatim>\<open>DynamicDisconnect\<close>) pass the number \<open>0\<close> to
  \<^verbatim>\<open>UpdateServerLoad\<close>, which stores it as the load. After two users connected to
  \<open>us-east-1\<close> its load is \<open>2\<close>; the first user disconnects successfully, and the
  load is \<open>0\<close>, not \<open>1\<close>.
\<close>

theorem Disconnect_resets_load_to_zero:
  "map_option Load (w_servers after_two_connects ''us-east-1'') = Some 2
   \<and> fst disconnect_first = None
   \<and> map_option Load (w_servers (snd disconnect_first) ''us-east-1'') = Some 0"
  by code_simp



text \<open>
  C6. Claimed: optimal-server selection returns only servers whose status is online and
  whose load is below capacity, and with a preferred location that has no online
  candidate it falls back to the online servers. On the registry that
  \<^verbatim>\<open>initializeServers\<close> builds, a request for Japan returns the server
  \<open>ap-northeast-1\<close>, whose status is maintenance: the country branch takes the
  servers of the country without the status test that the other two branches apply.
\<close>

theorem GetOptimalServer_returns_maintenance_server:
  "GetOptimalServer [''us-east-1'', ''us-west-1'', ''eu-west-1'', ''ap-northeast-1'']
       (initializeServers 0) ''Japan''
     = Inr \<lparr>ID = ''ap-northeast-1'', Name = ''Asia Pacific (Tokyo)'',
        Country = ''Japan'', City = ''Tokyo'', IP = ''192.168.1.4'',
        Load = 0, Capacity = 100, Status = ''maintenance'', LastUpdated = 0\<rparr>"
  by (simp add: GetOptimalServer_def GetServersByCountry_def range_servers_def
      initializeServers_def)

text \<open>
  C7. Claimed: the peer value that \<^verbatim>\<open>Connect\<close> or \<^verbatim>\<open>GetPeer\<close> returns has no
  private-key member when it is written as JSON. The \<^verbatim>\<open>PrivateKey\<close> field of
  \<^verbatim>\<open>PeerConfig\<close> carries the tag \<^verbatim>\<open>json:"privateKey"\<close>, where the sibling struct
  \<^verbatim>\<open>VPNPeer\<close> of the database models carries \<^verbatim>\<open>json:"-"\<close> with the comment that the
  private key is not included in JSON; and the admin API writes \<^verbatim>\<open>PeerConfig\<close> values
  as its JSON response. The peer that a successful \<^verbatim>\<open>Connect\<close> returns, written as
  JSON, has the member \<open>privateKey\<close>, and its value is the private key.
\<close>

theorem Connect_peer_json_has_private_key:
  "map_sum id (\<lambda>(peer, config). map_of (marshal_PeerConfig peer) ''privateKey'')
     (fst (Connect default_config (readings_at ''p1'' 1) initial_world
             ''alice'' ''us-east-1'' ''generic'' ''laptop''))
     = Inr (Some (JString ''YAnV4SnPYEA+jS6nQtxF5lS3jj0gqXBVVeP9tz/bP2A=''))"
  by code_simp

text \<open>
  C8. Claimed: after a restart over a store that already holds peers with the addresses
  \<open>X\<close> and \<open>Y\<close>, the next allocation returns an address distinct from both, because
  the allocation state is rebuilt from the store first. \<^verbatim>\<open>NewPeerManager\<close> only creates
  the two directories, and \<^verbatim>\<open>allocateIP\<close> does not look at the store: it returns the
  constant \<^verbatim>\<open>10.0.0.2/32\<close> (its comment says that a real implementation would allocate
  from a pool). The peer created after the restart gets the address that the two stored
  peers have, and both are still in the store.
\<close>

theorem allocation_after_restart_repeats_address:
  "address_of (fst first_create) = Inr ''10.0.0.2/32''
   \<and> address_of (fst second_create) = Inr ''10.0.0.2/32''
   \<and> address_of (fst create_after_restart) = Inr ''10.0.0.2/32''
   \<and> GetPeer default_config (snd create_after_restart) ''alice'' ''p1'' = fst first_create
   \<and> GetPeer default_config (snd create_after_restart) ''bob'' ''p2'' = fst second_create"
  by code_simp

text \<open>
  C9. Claimed: two calls of \<^verbatim>\<open>GenerateConfig\<close> with the same peer and the same server
  attributes return the same text. \<^verbatim>\<open>replaceConfigPlaceholders\<close> ranges over a Go map,
  and the runtime chooses the order of the keys anew for each call; when a value that is
  put in contains the text of another placeholder, the result depends on that order.
  What holds instead: when the template that is read is made of plain pieces (literal
  text without an opening brace, and placeholders whose names have no brace) and none of
  the seven values contains an opening brace, the call returns the same text for every
  order in which the keys can be visited, namely the template with every placeholder of
  the seven keys filled in (\<open>GenerateConfig_fills_template\<close>).
\<close>

theorem GenerateConfig_same_for_every_order:
  assumes "getConfigTemplate templates (pc_DeviceType peer) = Inr (render ps)"
      and "list_all plain_piece ps"
      and "list_all (\<lambda>(k, v). CHR ''{'' \<notin> set v) (config_replacements cfg peer)"
      and "is_key_order order1 (config_replacements cfg peer)"
      and "is_key_order order2 (config_replacements cfg peer)"
  shows "GenerateConfig cfg templates order1 peer = GenerateConfig cfg templates order2 peer"
  using GenerateConfig_fills_template[OF assms(1,2,3,4)]
        GenerateConfig_fills_template[OF assms(1,2,3,5)]
  by simp

theorem GenerateConfig_same_for_every_order_witness:
  "getConfigTemplate sample_templates (pc_DeviceType sample_peer) = Inr (render sample_pieces)
   \<and> list_all plain_piece sample_pieces
   \<and> list_all (\<lambda>(k, v). CHR ''{'' \<notin> set v) (config_replacements default_config sample_peer)
   \<and> is_key_order dns_first (config_replacements default_config sample_peer)
   \<and> is_key_order dns_last (config_replacements default_config sample_peer)
   \<and> GenerateConfig default_config sample_templates dns_first sample_peer
       = GenerateConfig default_config sample_templates dns_last sample_peer"
proof -
  have a: "getConfigTemplate sample_templates (pc_DeviceType sample_peer)
             = Inr (render sample_pieces)"
    by code_simp
  have b: "list_all plain_piece sample_pieces"
    by code_simp
  have c: "list_all (\<lambda>(k, v). CHR ''{'' \<notin> set v)
             (config_replacements default_config sample_peer)"
    by code_simp
  have d: "is_key_order dns_first (config_replacements default_config sample_peer)"
    by code_simp
  have e: "is_key_order dns_last (config_replacements default_config sample_peer)"
    by code_simp
  from GenerateConfig_same_for_every_order[OF a b c d e] a b c d e show ?thesis
    by simp
qed

text \<open>
  With a DNS entry that reads \<^verbatim>\<open>{{ALLOWED_IPS}}\<close>, visiting the key \<open>DNS\<close> first or
  last gives two different texts for the same peer, configuration and template.
\<close>

theorem GenerateConfig_order_counterexample:
  "is_key_order dns_first (config_replacements odd_config sample_peer)
   \<and> is_key_order dns_last (config_replacements odd_config sample_peer)
   \<and> GenerateConfig odd_config sample_templates dns_first sample_peer
       \<noteq> GenerateConfig odd_config sample_templates dns_last sample_peer"
  by code_simp

text \<open>
  C10. For a user for whom neither the directory of the static namespace nor the one of
  the dynamic namespace exists, \<^verbatim>\<open>GetPeers\<close> returns the empty list and no error.
\<close>

theorem GetPeers_without_directories:
  assumes "IsNotExist (lookup d (Join [] [ConfigDir cfg, userID]))"
      and "IsNotExist (lookup d (Join [] [DynamicPeerDir cfg, userID]))"
  shows "GetPeers cfg d userID = Inr []"
  using assms by (simp add: GetPeers_def getStaticPeers_def getDynamicPeers_def)

theorem GetPeers_without_directories_witness:
  "IsNotExist (lookup (NewPeerManager default_config (Dir []))
                 (Join [] [ConfigDir default_config, ''alice'']))
   \<and> IsNotExist (lookup (NewPeerManager default_config (Dir []))
                 (Join [] [DynamicPeerDir default_config, ''alice'']))
   \<and> GetPeers default_config (NewPeerManager default_config (Dir [])) ''alice'' = Inr []"
proof -
  have a: "IsNotExist (lookup (NewPeerManager default_config (Dir []))
                 (Join [] [ConfigDir default_config, ''alice'']))"
    by code_simp
  have b: "IsNotExist (lookup (NewPeerManager default_config (Dir []))
                 (Join [] [DynamicPeerDir default_config, ''alice'']))"
    by code_simp
  from GetPeers_without_directories[OF a b] a b show ?thesis by simp
qed

end
